theory Spec2Isabelle
  imports Complex_Main "HOL-Library.Multiset"
begin

section \<open>Data model\<close>

text \<open>
  Values of Go's \<^verbatim>\<open>interface{}\<close> as they occur in the attribute maps of events.  A type
  assertion \<^verbatim>\<open>v.(string)\<close> succeeds exactly on \<open>GoString\<close>.
\<close>

datatype go_value =
    GoString string
  | GoNumber real
  | GoBool bool
  | GoNil
  | GoList "go_value list"
  | GoObject "(string \<times> go_value) list"

text \<open>
  A \<^verbatim>\<open>time.Time\<close> is the reading of the clock in nanoseconds; a \<^verbatim>\<open>time.Duration\<close> is a
  signed 64-bit count of nanoseconds.
\<close>

type_synonym Time = int
type_synonym Duration = int

text \<open>\<^verbatim>\<open>ingestion.RawEvent\<close> (internal/ingestion/manager.go).\<close>

record RawEvent =
  raw_ID :: string
  raw_Timestamp :: Time
  raw_Source :: string
  raw_SourceType :: string
  raw_Data :: "string \<rightharpoonup> go_value"

text \<open>\<^verbatim>\<open>normalization.SourceInfo\<close> and \<^verbatim>\<open>normalization.NormalizedEvent\<close>.\<close>

record SourceInfo =
  src_Name :: string
  src_Type :: string
  src_Vendor :: string
  src_Product :: string
  src_Version :: string

record NormalizedEvent =
  ev_ID :: string
  ev_Timestamp :: Time
  ev_Schema :: string
  ev_SchemaVersion :: string
  ev_Category :: string
  ev_Type :: string
  ev_Severity :: int
  ev_Source :: SourceInfo
  ev_Data :: "string \<rightharpoonup> go_value"
  ev_Raw :: "string \<rightharpoonup> go_value"

text \<open>
  \<^verbatim>\<open>correlation.CorrelationGroup\<close>.  \<open>Events\<close> holds the member events in the order in
  which they were appended; an event that is submitted twice is held twice.
\<close>

record CorrelationGroup =
  ID :: string
  Events :: "NormalizedEvent list"
  CreatedAt :: Time
  UpdatedAt :: Time
  Keys :: "string list"

text \<open>
  \<^verbatim>\<open>correlation.Correlator\<close>: the table of groups by identifier and the time-to-live.  The
  logger has no effect on the state; the mutex makes every method one atomic step, which
  is how the methods are modelled.
\<close>

record Correlator =
  correlations :: "string \<rightharpoonup> CorrelationGroup"
  ttl :: Duration

text \<open>\<^verbatim>\<open>ai.Usage\<close>, \<^verbatim>\<open>ai.Response\<close> and \<^verbatim>\<open>ai.RiskAnalysis\<close> (internal/ai/provider.go).\<close>

record Usage =
  InputTokens :: int
  OutputTokens :: int

record Response =
  Content :: string
  Model :: string
  resp_Usage :: Usage

text \<open>
  The two \<^verbatim>\<open>float64\<close> fields are real numbers.  The program only compares them with
  constants and copies them, it never computes with them, so only their order matters;
  the constants are the decimals the source writes.  A decoded JSON number is never a
  NaN.
\<close>

record RiskAnalysis =
  RiskScore :: real
  RiskLevel :: string
  Summary :: string
  Indicators :: "string list"
  MITRETactics :: "string list"
  MITRETechniques :: "string list"
  Recommendations :: "string list"
  Confidence :: real
  RawContext :: string

text \<open>\<^verbatim>\<open>ProcessedEvent\<close> (cmd/hub/main.go); a nil pointer or slice is \<open>None\<close> or \<open>[]\<close>.\<close>

record ProcessedEvent =
  out_ID :: string
  out_Timestamp :: Time
  out_Source :: string
  out_SourceType :: string
  out_NormalizedData :: "string \<rightharpoonup> go_value"
  out_RawData :: "string \<rightharpoonup> go_value"
  out_AIAnalysis :: "RiskAnalysis option"
  out_Enrichments :: "string \<rightharpoonup> (string \<rightharpoonup> go_value)"
  out_CorrelationID :: string
  out_RiskScore :: real
  out_RiskLevel :: string
  out_MITRETactics :: "string list"
  out_MITRETechniques :: "string list"

text \<open>
  What the standard library contributes: the hexadecimal SHA-256 digest of a byte string
  (\<^verbatim>\<open>hex.EncodeToString\<close> of \<^verbatim>\<open>sha256\<close>, 64 characters), the rendering \<^verbatim>\<open>Time.String\<close> of
  a clock reading, \<^verbatim>\<open>Time.Format\<close> with the layout of the prompt, and the JSON encoder and
  decoder.  All are parameters of the model.  An error is its message.
\<close>

record runtime =
  sha256_hex :: "string \<Rightarrow> string"
  time_String :: "Time \<Rightarrow> string"
  time_Format :: "Time \<Rightarrow> string"
  json_MarshalIndent :: "(string \<rightharpoonup> go_value) \<Rightarrow> string"
  json_Unmarshal :: "string \<Rightarrow> string + RiskAnalysis"

section \<open>The correlator (internal/correlation/correlator.go)\<close>

definition Second :: Duration where
  "Second = 1000000000"

definition Minute :: Duration where
  "Minute = 60 * Second"

definition Hour :: Duration where
  "Hour = 60 * Minute"

definition minDuration :: Duration where
  "minDuration = - (2 ^ 63)"

definition maxDuration :: Duration where
  "maxDuration = 2 ^ 63 - 1"

text \<open>\<^verbatim>\<open>Time.Sub\<close>: the difference of two readings, saturated to the range of a Duration.\<close>

definition Sub :: "Time \<Rightarrow> Time \<Rightarrow> Duration" where
  "Sub t u = max minDuration (min maxDuration (t - u))"

definition NewCorrelator :: Correlator where
  "NewCorrelator = \<lparr>correlations = Map.empty, ttl = 1 * Hour\<rparr>"

text \<open>
  \<^verbatim>\<open>extractCorrelationKeys\<close>: five tests in the order of the source, each appending to
  \<open>keys\<close> when the attribute is a string and is not empty.
\<close>

definition extractCorrelationKeys :: "NormalizedEvent \<Rightarrow> string list" where
  "extractCorrelationKeys event =
    (let keys = [];
         keys = (case ev_Data event ''source_ip'' of
                   Some (GoString ip) \<Rightarrow> if ip \<noteq> [] then keys @ [''ip:'' @ ip] else keys
                 | _ \<Rightarrow> keys);
         keys = (case ev_Data event ''user'' of
                   Some (GoString user) \<Rightarrow> if user \<noteq> [] then keys @ [''user:'' @ user] else keys
                 | _ \<Rightarrow> keys);
         keys = (case ev_Data event ''hostname'' of
                   Some (GoString host) \<Rightarrow> if host \<noteq> [] then keys @ [''host:'' @ host] else keys
                 | _ \<Rightarrow> keys);
         keys = (case ev_Data event ''file_hash'' of
                   Some (GoString hash) \<Rightarrow> if hash \<noteq> [] then keys @ [''hash:'' @ hash] else keys
                 | _ \<Rightarrow> keys);
         keys = (case ev_Data event ''domain'' of
                   Some (GoString domain) \<Rightarrow>
                     if domain \<noteq> [] then keys @ [''domain:'' @ domain] else keys
                 | _ \<Rightarrow> keys)
     in keys)"

text \<open>\<^verbatim>\<open>matchesGroup\<close>: some key of the event equals some key of the group.\<close>

definition matchesGroup :: "string list \<Rightarrow> CorrelationGroup \<Rightarrow> bool" where
  "matchesGroup keys grp = list_ex (\<lambda>key. list_ex (\<lambda>groupKey. key = groupKey) (Keys grp)) keys"

text \<open>
  \<^verbatim>\<open>generateCorrelationID\<close>: the keys and then the rendering of the clock reading are
  written to the hash; the identifier is the first 16 characters of the hexadecimal
  digest (the digest has 64, so the slice never fails).
\<close>

definition generateCorrelationID :: "runtime \<Rightarrow> string list \<Rightarrow> Time \<Rightarrow> string" where
  "generateCorrelationID rt keys now = take 16 (sha256_hex rt (concat keys @ time_String rt now))"

text \<open>
  The loop \<^verbatim>\<open>for _, group := range c.correlations\<close> of \<^verbatim>\<open>Correlate\<close>.  Go leaves the order
  in which a range loop visits a map unspecified, and it may change from one loop to the
  next: \<open>order\<close> is the order of this loop.  The loop stops at the first group that
  matches.
\<close>

fun range_match ::
  "string list \<Rightarrow> (string \<rightharpoonup> CorrelationGroup) \<Rightarrow> string list \<Rightarrow> (string \<times> CorrelationGroup) option"
where
  "range_match keys m [] = None"
| "range_match keys m (k # rest) =
    (case m k of
       Some grp \<Rightarrow> if matchesGroup keys grp then Some (k, grp) else range_match keys m rest
     | None \<Rightarrow> range_match keys m rest)"

text \<open>An order in which a range loop can visit the table: every identifier once.\<close>

definition range_order :: "string list \<Rightarrow> Correlator \<Rightarrow> bool" where
  "range_order order c = (distinct order \<and> set order = dom (correlations c))"

text \<open>
  \<^verbatim>\<open>Correlate\<close>.  \<open>now 0\<close>, \<open>now 1\<close>, \<open>now 2\<close> are the successive readings of
  \<^verbatim>\<open>time.Now()\<close> during the call: on a match only one is taken (the new
  \<open>UpdatedAt\<close>); otherwise the first goes into the identifier, the next two are
  \<open>CreatedAt\<close> and \<open>UpdatedAt\<close>.  The result is the returned identifier and the
  correlator after the call.
\<close>

definition Correlate ::
  "runtime \<Rightarrow> string list \<Rightarrow> (nat \<Rightarrow> Time) \<Rightarrow> Correlator \<Rightarrow> NormalizedEvent \<Rightarrow> string \<times> Correlator"
where
  "Correlate rt order now c event =
    (let keys = extractCorrelationKeys event in
     case range_match keys (correlations c) order of
       Some (k, grp) \<Rightarrow>
         (ID grp,
          c\<lparr>correlations := (correlations c)
              (k \<mapsto> grp\<lparr>Events := Events grp @ [event], UpdatedAt := now 0\<rparr>)\<rparr>)
     | None \<Rightarrow>
         (let groupID = generateCorrelationID rt keys (now 0) in
          (groupID,
           c\<lparr>correlations := (correlations c)
               (groupID \<mapsto> \<lparr>ID = groupID, Events = [event], CreatedAt = now 1,
                             UpdatedAt = now 2, Keys = keys\<rparr>)\<rparr>)))"

text \<open>
  \<^verbatim>\<open>cleanup\<close> loops over the ticks of a ticker that fires every five minutes, for as long
  as the process runs; between two ticks any number of calls of \<^verbatim>\<open>Correlate\<close> can take
  place.  \<open>cleanup_tick\<close> is the body of the loop, run at clock reading \<open>now\<close>: the
  range loop over the table in the order \<open>order\<close>, deleting the entry it is at when the
  group is older than the time-to-live.  The interleaving of ticks and calls is the
  relation \<open>reachable\<close> below.
\<close>

definition cleanup_interval :: Duration where
  "cleanup_interval = 5 * Minute"

definition cleanup_tick :: "string list \<Rightarrow> Time \<Rightarrow> Correlator \<Rightarrow> Correlator" where
  "cleanup_tick order now c =
    c\<lparr>correlations :=
        fold (\<lambda>k m. case m k of
                      Some grp \<Rightarrow> if Sub now (UpdatedAt grp) > ttl c then m(k := None) else m
                    | None \<Rightarrow> m)
             order (correlations c)\<rparr>"

definition GetGroup :: "Correlator \<Rightarrow> string \<Rightarrow> CorrelationGroup option" where
  "GetGroup c k = correlations c k"

text \<open>\<^verbatim>\<open>GetActiveGroups\<close>: the groups of the table, in the order of its range loop.\<close>

definition GetActiveGroups :: "string list \<Rightarrow> Correlator \<Rightarrow> CorrelationGroup list" where
  "GetActiveGroups order c = List.map_filter (correlations c) order"

text \<open>
  The states of a correlator: created by \<^verbatim>\<open>NewCorrelator\<close>, then any interleaving of calls
  of \<^verbatim>\<open>Correlate\<close> and ticks of \<^verbatim>\<open>cleanup\<close>, with any clock readings and any range orders.
  The list is the events submitted so far, oldest first.
\<close>

inductive reachable :: "runtime \<Rightarrow> Correlator \<Rightarrow> NormalizedEvent list \<Rightarrow> bool" for rt where
  new: "reachable rt NewCorrelator []"
| correlate:
    "reachable rt c es \<Longrightarrow> range_order order c
      \<Longrightarrow> reachable rt (snd (Correlate rt order now c event)) (es @ [event])"
| tick:
    "reachable rt c es \<Longrightarrow> range_order order c
      \<Longrightarrow> reachable rt (cleanup_tick order now c) es"

section \<open>The analyzer (internal/ai/provider.go)\<close>

text \<open>\<^verbatim>\<open>ai.Analyzer\<close>: the provider is its method \<^verbatim>\<open>Analyze\<close>, from the prompt to a response or an error.\<close>

record Analyzer =
  provider :: "string \<Rightarrow> string + Response"

definition nl :: string where
  "nl = [CHR 0x0A]"

definition buildRawEventPrompt :: "runtime \<Rightarrow> RawEvent \<Rightarrow> string" where
  \<open>buildRawEventPrompt rt event =
    (let eventJSON = json_MarshalIndent rt (raw_Data event) in
     ''Analyze this raw security telemetry event and provide a risk assessment.'' @ nl @
     nl @
     ''Source: '' @ raw_Source event @ nl @
     ''Source Type: '' @ raw_SourceType event @ nl @
     ''Timestamp: '' @ time_Format rt (raw_Timestamp event) @ nl @
     nl @
     ''Raw Event Data:'' @ nl @
     eventJSON @ nl @
     nl @
     ''Provide your analysis as JSON with the following structure:'' @ nl @
     ''{'' @ nl @
     ''  "risk_score": <float 0.0-1.0>,'' @ nl @
     ''  "risk_level": "<critical|high|medium|low|info>",'' @ nl @
     ''  "summary": "<1-2 sentence natural language summary>",'' @ nl @
     ''  "indicators": ["<indicator1>", "<indicator2>"],'' @ nl @
     ''  "mitre_tactics": ["<tactic1>", "<tactic2>"],'' @ nl @
     ''  "mitre_techniques": ["<T1234>", "<T5678>"],'' @ nl @
     ''  "recommendations": ["<action1>", "<action2>"],'' @ nl @
     ''  "confidence": <float 0.0-1.0>,'' @ nl @
     ''  "raw_context": "<any important context from raw data that might be lost in normalization>"'' @ nl @
     ''}'' @ nl @
     nl @
     ''Focus on:'' @ nl @
     ''1. Identifying potential threats or anomalies'' @ nl @
     ''2. Mapping to MITRE ATT&CK framework'' @ nl @
     ''3. Contextual information that might be lost during schema normalization'' @ nl @
     ''4. Actionable recommendations for security analysts'')\<close>

definition parseRiskAnalysis :: "runtime \<Rightarrow> string \<Rightarrow> string + RiskAnalysis" where
  "parseRiskAnalysis rt content =
    (case json_Unmarshal rt content of
       Inl err \<Rightarrow> Inl (''parsing AI response: '' @ err)
     | Inr analysis \<Rightarrow> Inr analysis)"

definition fallbackAnalysis :: "RawEvent \<Rightarrow> RiskAnalysis" where
  "fallbackAnalysis event =
    \<lparr>RiskScore = 0.5,
     RiskLevel = ''medium'',
     Summary = ''Event from '' @ raw_Source event @ '' requires manual review'',
     Indicators = [],
     MITRETactics = [],
     MITRETechniques = [],
     Recommendations = [''Review event manually'', ''Check for related events''],
     Confidence = 0.0,
     RawContext = ''AI analysis unavailable - fallback applied''\<rparr>"

text \<open>
  \<^verbatim>\<open>AnalyzeRawEvent\<close>: \<open>Inl\<close> is the result \<^verbatim>\<open>(nil, err)\<close>, \<open>Inr\<close> the result
  \<^verbatim>\<open>(analysis, nil)\<close>.
\<close>

definition AnalyzeRawEvent :: "runtime \<Rightarrow> Analyzer \<Rightarrow> RawEvent \<Rightarrow> string + RiskAnalysis" where
  "AnalyzeRawEvent rt a event =
    (let prompt = buildRawEventPrompt rt event in
     case provider a prompt of
       Inl err \<Rightarrow> Inl (''AI analysis failed: '' @ err)
     | Inr response \<Rightarrow>
         (case parseRiskAnalysis rt (Content response) of
            Inl err \<Rightarrow> Inr (fallbackAnalysis event)
          | Inr analysis \<Rightarrow> Inr analysis))"

section \<open>The normalizer (package normalization)\<close>

text \<open>\<^verbatim>\<open>normalization.Normalizer\<close>: of its configuration only \<^verbatim>\<open>DefaultSchema\<close> is read.\<close>

record Normalizer =
  DefaultSchema :: string

definition vendorMap :: "(string \<times> string) list" where
  "vendorMap =
    [(''crowdstrike'', ''CrowdStrike''),
     (''sentinelone'', ''SentinelOne''),
     (''defender'', ''Microsoft''),
     (''splunk'', ''Splunk''),
     (''elasticsearch'', ''Elastic''),
     (''aws-cloudtrail'', ''Amazon Web Services''),
     (''azure-activity'', ''Microsoft''),
     (''gcp-audit'', ''Google Cloud''),
     (''digital-guardian'', ''Fortra''),
     (''proofpoint'', ''Proofpoint''),
     (''purview'', ''Microsoft''),
     (''netskope'', ''Netskope'')]"

definition productMap :: "(string \<times> string) list" where
  "productMap =
    [(''crowdstrike'', ''Falcon''),
     (''sentinelone'', ''Singularity''),
     (''defender'', ''Defender for Endpoint''),
     (''splunk'', ''Splunk Enterprise''),
     (''elasticsearch'', ''Elasticsearch Security''),
     (''aws-cloudtrail'', ''CloudTrail''),
     (''azure-activity'', ''Activity Log''),
     (''gcp-audit'', ''Audit Logs''),
     (''digital-guardian'', ''Digital Guardian''),
     (''proofpoint'', ''Email Protection''),
     (''purview'', ''Purview DLP''),
     (''netskope'', ''Cloud Security'')]"

text \<open>Reading a Go map of strings: the empty string when the key is missing.\<close>

definition lookup_string :: "(string \<times> string) list \<Rightarrow> string \<Rightarrow> string" where
  "lookup_string m k = (case map_of m k of Some v \<Rightarrow> v | None \<Rightarrow> [])"

definition getSourceInfo :: "RawEvent \<Rightarrow> SourceInfo" where
  "getSourceInfo raw =
    \<lparr>src_Name = raw_Source raw,
     src_Type = raw_SourceType raw,
     src_Vendor = lookup_string vendorMap (raw_Source raw),
     src_Product = lookup_string productMap (raw_Source raw),
     src_Version = []\<rparr>"

text \<open>The mapping functions of the source are stubs that set the severity.\<close>

definition mapEDRToOCSF :: "RawEvent \<Rightarrow> NormalizedEvent \<Rightarrow> NormalizedEvent" where
  "mapEDRToOCSF raw event = event\<lparr>ev_Severity := 70\<rparr>"

definition mapSIEMToOCSF :: "RawEvent \<Rightarrow> NormalizedEvent \<Rightarrow> NormalizedEvent" where
  "mapSIEMToOCSF raw event = event\<lparr>ev_Severity := 50\<rparr>"

definition mapCloudToOCSF :: "RawEvent \<Rightarrow> NormalizedEvent \<Rightarrow> NormalizedEvent" where
  "mapCloudToOCSF raw event = event\<lparr>ev_Severity := 30\<rparr>"

definition mapDLPToOCSF :: "RawEvent \<Rightarrow> NormalizedEvent \<Rightarrow> NormalizedEvent" where
  "mapDLPToOCSF raw event = event\<lparr>ev_Severity := 60\<rparr>"

definition mapEDRToECS :: "RawEvent \<Rightarrow> NormalizedEvent \<Rightarrow> NormalizedEvent" where
  "mapEDRToECS raw event = event\<lparr>ev_Severity := 70\<rparr>"

definition mapSIEMToECS :: "RawEvent \<Rightarrow> NormalizedEvent \<Rightarrow> NormalizedEvent" where
  "mapSIEMToECS raw event = event\<lparr>ev_Severity := 50\<rparr>"

definition mapCloudToECS :: "RawEvent \<Rightarrow> NormalizedEvent \<Rightarrow> NormalizedEvent" where
  "mapCloudToECS raw event = event\<lparr>ev_Severity := 30\<rparr>"

definition mapDLPToECS :: "RawEvent \<Rightarrow> NormalizedEvent \<Rightarrow> NormalizedEvent" where
  "mapDLPToECS raw event = event\<lparr>ev_Severity := 60\<rparr>"

definition normalizeToOCSF :: "RawEvent \<Rightarrow> string + NormalizedEvent" where
  "normalizeToOCSF raw =
    (let event = \<lparr>ev_ID = raw_ID raw, ev_Timestamp = raw_Timestamp raw, ev_Schema = ''ocsf'',
                  ev_SchemaVersion = ''1.1.0'', ev_Category = [], ev_Type = [],
                  ev_Severity = 0, ev_Source = getSourceInfo raw, ev_Data = Map.empty,
                  ev_Raw = raw_Data raw\<rparr>;
         event =
           (if raw_SourceType raw = ''edr'' then
              mapEDRToOCSF raw (event\<lparr>ev_Category := ''security_finding'', ev_Type := ''detection''\<rparr>)
            else if raw_SourceType raw = ''siem'' then
              mapSIEMToOCSF raw (event\<lparr>ev_Category := ''security_finding'', ev_Type := ''alert''\<rparr>)
            else if raw_SourceType raw = ''cloud'' then
              mapCloudToOCSF raw (event\<lparr>ev_Category := ''api_activity'', ev_Type := ''audit''\<rparr>)
            else if raw_SourceType raw = ''dlp'' then
              mapDLPToOCSF raw
                (event\<lparr>ev_Category := ''data_security'', ev_Type := ''policy_violation''\<rparr>)
            else event\<lparr>ev_Category := ''unknown'', ev_Type := ''unknown''\<rparr>)
     in Inr event)"

definition normalizeToECS :: "RawEvent \<Rightarrow> string + NormalizedEvent" where
  "normalizeToECS raw =
    (let event = \<lparr>ev_ID = raw_ID raw, ev_Timestamp = raw_Timestamp raw, ev_Schema = ''ecs'',
                  ev_SchemaVersion = ''8.11.0'', ev_Category = [], ev_Type = [],
                  ev_Severity = 0, ev_Source = getSourceInfo raw, ev_Data = Map.empty,
                  ev_Raw = raw_Data raw\<rparr>;
         event =
           (if raw_SourceType raw = ''edr'' then
              mapEDRToECS raw (event\<lparr>ev_Category := ''malware'', ev_Type := ''detection''\<rparr>)
            else if raw_SourceType raw = ''siem'' then
              mapSIEMToECS raw (event\<lparr>ev_Category := ''threat'', ev_Type := ''indicator''\<rparr>)
            else if raw_SourceType raw = ''cloud'' then
              mapCloudToECS raw (event\<lparr>ev_Category := ''configuration'', ev_Type := ''change''\<rparr>)
            else if raw_SourceType raw = ''dlp'' then
              mapDLPToECS raw (event\<lparr>ev_Category := ''file'', ev_Type := ''access''\<rparr>)
            else event\<lparr>ev_Category := ''unknown'', ev_Type := ''unknown''\<rparr>)
     in Inr event)"

definition Normalize :: "Normalizer \<Rightarrow> RawEvent \<Rightarrow> string + NormalizedEvent" where
  "Normalize n raw =
    (if DefaultSchema n = ''ocsf'' then normalizeToOCSF raw
     else if DefaultSchema n = ''ecs'' then normalizeToECS raw
     else Inl (''unsupported schema: '' @ DefaultSchema n))"

section \<open>The enricher (internal/enrichment/enricher.go)\<close>

text \<open>The interface \<^verbatim>\<open>EnrichmentSource\<close>, by its three methods.\<close>

record EnrichmentSource =
  es_Name :: string
  es_Enabled :: bool
  es_Enrich :: "NormalizedEvent \<Rightarrow> string + (string \<rightharpoonup> go_value)"

record Enricher =
  sources :: "EnrichmentSource list"

text \<open>
  \<^verbatim>\<open>Enrich\<close>: the result of every enabled source that does not fail, under the name of the
  source.  The error it returns is always nil.
\<close>

definition Enrich :: "Enricher \<Rightarrow> NormalizedEvent \<Rightarrow> (string \<rightharpoonup> (string \<rightharpoonup> go_value))" where
  "Enrich e event =
    fold (\<lambda>source enrichments.
            if es_Enabled source then
              (case es_Enrich source event of
                 Inl err \<Rightarrow> enrichments
               | Inr data \<Rightarrow> enrichments(es_Name source \<mapsto> data))
            else enrichments)
         (sources e) Map.empty"

section \<open>The pipeline (cmd/hub/main.go)\<close>

text \<open>
  \<^verbatim>\<open>Pipeline\<close>: the components \<^verbatim>\<open>processEvent\<close> uses, the correlator it shares with every
  other event, and the content of the output channel, oldest first.
\<close>

record Pipeline =
  normalizer :: Normalizer
  aiAnalyzer :: Analyzer
  enricher :: Enricher
  correlator :: Correlator
  outputChan :: "ProcessedEvent list"

definition outputChan_capacity :: nat where
  "outputChan_capacity = 1000"

definition calculateRisk :: "RiskAnalysis option \<Rightarrow> NormalizedEvent \<Rightarrow> real \<times> string" where
  "calculateRisk aiAnalysis normalized =
    (case aiAnalysis of
       None \<Rightarrow> (0.0, ''unknown'')
     | Some a \<Rightarrow>
         (let score = RiskScore a;
              level =
                (if score \<ge> 0.9 then ''critical''
                 else if score \<ge> 0.7 then ''high''
                 else if score \<ge> 0.4 then ''medium''
                 else if score \<ge> 0.1 then ''low''
                 else ''info'')
          in (score, level)))"

text \<open>
  How a call of \<^verbatim>\<open>processEvent\<close> ends: it returns, or it waits at the send on the output
  channel because the buffer is full.
\<close>

datatype outcome = Returned Pipeline | Blocked Pipeline ProcessedEvent

text \<open>
  \<^verbatim>\<open>processEvent\<close>.  \<open>order\<close> and \<open>now\<close> are the range order and the clock readings of
  the call of \<^verbatim>\<open>Correlate\<close>.
\<close>

definition processEvent ::
  "runtime \<Rightarrow> string list \<Rightarrow> (nat \<Rightarrow> Time) \<Rightarrow> Pipeline \<Rightarrow> RawEvent \<Rightarrow> outcome"
where
  "processEvent rt order now p raw =
    (let aiAnalysis =
           (case AnalyzeRawEvent rt (aiAnalyzer p) raw of
              Inl err \<Rightarrow> None
            | Inr analysis \<Rightarrow> Some analysis)
     in
     case Normalize (normalizer p) raw of
       Inl err \<Rightarrow> Returned p
     | Inr normalized \<Rightarrow>
         (let enrichments = Enrich (enricher p) normalized;
              (correlationID, c) = Correlate rt order now (correlator p) normalized;
              p = p\<lparr>correlator := c\<rparr>;
              processed =
                \<lparr>out_ID = raw_ID raw,
                 out_Timestamp = raw_Timestamp raw,
                 out_Source = raw_Source raw,
                 out_SourceType = raw_SourceType raw,
                 out_NormalizedData = ev_Data normalized,
                 out_RawData = raw_Data raw,
                 out_AIAnalysis = aiAnalysis,
                 out_Enrichments = enrichments,
                 out_CorrelationID = correlationID,
                 out_RiskScore = 0,
                 out_RiskLevel = [],
                 out_MITRETactics = [],
                 out_MITRETechniques = []\<rparr>;
              (score, level) = calculateRisk aiAnalysis normalized;
              processed = processed\<lparr>out_RiskScore := score, out_RiskLevel := level\<rparr>;
              processed =
                (case aiAnalysis of
                   Some a \<Rightarrow>
                     processed\<lparr>out_MITRETactics := MITRETactics a,
                               out_MITRETechniques := MITRETechniques a\<rparr>
                 | None \<Rightarrow> processed)
          in
          if length (outputChan p) < outputChan_capacity
          then Returned (p\<lparr>outputChan := outputChan p @ [processed]\<rparr>)
          else Blocked p processed))"

text \<open>The content of the output channel when the call has ended.\<close>

definition sent :: "outcome \<Rightarrow> ProcessedEvent list" where
  "sent r = (case r of Returned p \<Rightarrow> outputChan p | Blocked p processed \<Rightarrow> outputChan p)"

section \<open>Example inputs\<close>

text \<open>
  A runtime to evaluate examples with: the digest is the identity, the clock renders as
  one of three labels, the JSON decoder rejects every input.  Every theorem below that
  speaks of a runtime \<open>rt\<close> holds for all of them; this one only makes the examples
  concrete.
\<close>

definition example_runtime :: runtime where
  "example_runtime =
    \<lparr>sha256_hex = (\<lambda>s. s),
     time_String = (\<lambda>t. if t = 0 then ''T0'' else if t = 1 then ''T1'' else ''T2''),
     time_Format = (\<lambda>t. []),
     json_MarshalIndent = (\<lambda>d. []),
     json_Unmarshal = (\<lambda>s. Inl ''invalid character'')\<rparr>"

definition example_event :: "string \<Rightarrow> (string \<rightharpoonup> go_value) \<Rightarrow> NormalizedEvent" where
  "example_event i d =
    \<lparr>ev_ID = i, ev_Timestamp = 0, ev_Schema = ''ocsf'', ev_SchemaVersion = ''1.1.0'',
     ev_Category = ''security_finding'', ev_Type = ''detection'', ev_Severity = 70,
     ev_Source = \<lparr>src_Name = [], src_Type = [], src_Vendor = [], src_Product = [],
                  src_Version = []\<rparr>,
     ev_Data = d, ev_Raw = Map.empty\<rparr>"

text \<open>The three events of the end-to-end scenario of the specification.\<close>

definition event_1 :: NormalizedEvent where
  "event_1 = example_event ''1'' [''source_ip'' \<mapsto> GoString ''10.0.0.5'']"

definition event_2 :: NormalizedEvent where
  "event_2 = example_event ''2''
     [''user'' \<mapsto> GoString ''alice'', ''source_ip'' \<mapsto> GoString ''10.0.0.5'']"

definition event_3 :: NormalizedEvent where
  "event_3 = example_event ''3'' [''user'' \<mapsto> GoString ''alice'']"

text \<open>The group that \<open>event_1\<close> founds at clock reading 0, with members \<open>es\<close>.\<close>

definition group_1 :: "NormalizedEvent list \<Rightarrow> Time \<Rightarrow> CorrelationGroup" where
  "group_1 es t =
    \<lparr>ID = ''ip:10.0.0.5T0'', Events = es, CreatedAt = 0, UpdatedAt = t,
     Keys = [''ip:10.0.0.5'']\<rparr>"

definition table_1 :: "NormalizedEvent list \<Rightarrow> Time \<Rightarrow> Correlator" where
  "table_1 es t = \<lparr>correlations = [''ip:10.0.0.5T0'' \<mapsto> group_1 es t], ttl = Hour\<rparr>"

text \<open>The group that \<open>event_2\<close> founds at clock reading 0, with members \<open>es\<close>.\<close>

definition group_2 :: "NormalizedEvent list \<Rightarrow> Time \<Rightarrow> CorrelationGroup" where
  "group_2 es t =
    \<lparr>ID = ''ip:10.0.0.5user:'', Events = es, CreatedAt = 0, UpdatedAt = t,
     Keys = [''ip:10.0.0.5'', ''user:alice'']\<rparr>"

definition table_2 :: "NormalizedEvent list \<Rightarrow> Time \<Rightarrow> Correlator" where
  "table_2 es t = \<lparr>correlations = [''ip:10.0.0.5user:'' \<mapsto> group_2 es t], ttl = Hour\<rparr>"

text \<open>Two events without any correlation key.\<close>

definition event_4 :: NormalizedEvent where
  "event_4 = example_event ''4'' Map.empty"

definition event_5 :: NormalizedEvent where
  "event_5 = example_event ''5'' Map.empty"


text \<open>
  A raw event; a pipeline with an empty correlator and an empty output channel, for a
  given provider and schema; a provider that fails, and one that answers with a text that
  is not JSON.
\<close>

definition raw_1 :: RawEvent where
  "raw_1 =
    \<lparr>raw_ID = ''r1'', raw_Timestamp = 0, raw_Source = ''crowdstrike'',
     raw_SourceType = ''edr'', raw_Data = Map.empty\<rparr>"

definition example_pipeline :: "(string \<Rightarrow> string + Response) \<Rightarrow> string \<Rightarrow> Pipeline" where
  "example_pipeline f schema =
    \<lparr>normalizer = \<lparr>DefaultSchema = schema\<rparr>,
     aiAnalyzer = \<lparr>provider = f\<rparr>,
     enricher = \<lparr>sources = []\<rparr>,
     correlator = NewCorrelator,
     outputChan = []\<rparr>"

definition failing_provider :: "string \<Rightarrow> string + Response" where
  "failing_provider prompt = Inl ''API returned status 500''"

definition chatty_provider :: "string \<Rightarrow> string + Response" where
  "chatty_provider prompt =
    Inr \<lparr>Content = ''I cannot assess this event.'', Model = ''gpt-4'',
         resp_Usage = \<lparr>InputTokens = 0, OutputTokens = 0\<rparr>\<rparr>"

section \<open>Notions of the specification\<close>







text \<open>No group of the table matches the event; two events have a correlation key in common.\<close>

definition no_match :: "Correlator \<Rightarrow> NormalizedEvent \<Rightarrow> bool" where
  "no_match c event \<longleftrightarrow>
     (\<forall>grp \<in> ran (correlations c). \<not> matchesGroup (extractCorrelationKeys event) grp)"

definition shares_key :: "NormalizedEvent \<Rightarrow> NormalizedEvent \<Rightarrow> bool" where
  "shares_key a b \<longleftrightarrow> set (extractCorrelationKeys a) \<inter> set (extractCorrelationKeys b) \<noteq> {}"

section \<open>Basic facts about the correlator\<close>

lemma keys_event_1: "extractCorrelationKeys event_1 = [''ip:10.0.0.5'']"
  by (simp add: extractCorrelationKeys_def event_1_def example_event_def)

lemma keys_event_2: "extractCorrelationKeys event_2 = [''ip:10.0.0.5'', ''user:alice'']"
  by (simp add: extractCorrelationKeys_def event_2_def example_event_def)

lemma keys_event_3: "extractCorrelationKeys event_3 = [''user:alice'']"
  by (simp add: extractCorrelationKeys_def event_3_def example_event_def)

lemma matchesGroup_iff:
  "matchesGroup keys grp \<longleftrightarrow> set keys \<inter> set (Keys grp) \<noteq> {}"
  by (auto simp: matchesGroup_def list_ex_iff)

lemma range_match_SomeD:
  "range_match keys m order = Some (k, grp)
    \<Longrightarrow> k \<in> set order \<and> m k = Some grp \<and> matchesGroup keys grp"
  by (induction order) (auto split: option.splits if_splits)

lemma range_match_None_iff:
  "range_match keys m order = None
    \<longleftrightarrow> (\<forall>k \<in> set order. \<forall>grp. m k = Some grp \<longrightarrow> \<not> matchesGroup keys grp)"
  by (induction order) (auto split: option.splits)

text \<open>The loop stops at the first group, in the order of the loop, that matches.\<close>

lemma range_match_first:
  "range_match keys m order = Some (k, grp)
    \<Longrightarrow> \<exists>before after. order = before @ k # after
          \<and> (\<forall>j \<in> set before. \<forall>g. m j = Some g \<longrightarrow> \<not> matchesGroup keys g)"
proof (induction order)
  case Nil
  then show ?case by simp
next
  case (Cons j order)
  show ?case
  proof (cases "\<exists>g. m j = Some g \<and> matchesGroup keys g")
    case True
    with Cons.prems have "j = k"
      by auto
    then have "j # order = [] @ k # order"
      by simp
    then show ?thesis
      by (metis empty_iff list.set(1))
  next
    case False
    with Cons.prems have "range_match keys m order = Some (k, grp)"
      by (auto split: option.splits if_splits)
    from Cons.IH [OF this] obtain before after
      where "order = before @ k # after"
        and "\<forall>i \<in> set before. \<forall>g. m i = Some g \<longrightarrow> \<not> matchesGroup keys g"
      by blast
    with False have "j # order = (j # before) @ k # after
        \<and> (\<forall>i \<in> set (j # before). \<forall>g. m i = Some g \<longrightarrow> \<not> matchesGroup keys g)"
      by auto
    then show ?thesis
      by blast
  qed
qed

lemma Correlate_match:
  "range_match (extractCorrelationKeys event) (correlations c) order = Some (k, grp)
    \<Longrightarrow> Correlate rt order now c event =
        (ID grp,
         c\<lparr>correlations := (correlations c)
             (k \<mapsto> grp\<lparr>Events := Events grp @ [event], UpdatedAt := now 0\<rparr>)\<rparr>)"
  by (simp add: Correlate_def)

lemma Correlate_new:
  "range_match (extractCorrelationKeys event) (correlations c) order = None
    \<Longrightarrow> Correlate rt order now c event =
        (generateCorrelationID rt (extractCorrelationKeys event) (now 0),
         c\<lparr>correlations := (correlations c)
             (generateCorrelationID rt (extractCorrelationKeys event) (now 0) \<mapsto>
                \<lparr>ID = generateCorrelationID rt (extractCorrelationKeys event) (now 0),
                 Events = [event], CreatedAt = now 1, UpdatedAt = now 2,
                 Keys = extractCorrelationKeys event\<rparr>)\<rparr>)"
  by (simp add: Correlate_def Let_def)

lemma ttl_Correlate: "ttl (snd (Correlate rt order now c event)) = ttl c"
  by (simp add: Correlate_def Let_def split: option.split prod.split)

lemma ttl_cleanup_tick: "ttl (cleanup_tick order now c) = ttl c"
  by (simp add: cleanup_tick_def)

lemma reachable_ttl: "reachable rt c es \<Longrightarrow> ttl c = Hour"
  by (induction rule: reachable.induct)
    (simp_all add: NewCorrelator_def ttl_Correlate ttl_cleanup_tick)

text \<open>The saturation of \<open>Sub\<close> does not change the comparison with one hour.\<close>

lemma Sub_gt_Hour: "Sub now u > Hour \<longleftrightarrow> now - u > Hour"
  by (simp add: Sub_def Hour_def Minute_def Second_def minDuration_def maxDuration_def
      max_def min_def)

text \<open>The loop of a tick deletes the expired groups it visits and nothing else.\<close>

lemma sweep_fold:
  "fold (\<lambda>k m. case m k of
                 Some grp \<Rightarrow> if Sub now (UpdatedAt grp) > d then m(k := None) else m
               | None \<Rightarrow> m) order m k
   = (case m k of
        Some grp \<Rightarrow> if k \<in> set order \<and> Sub now (UpdatedAt grp) > d then None else Some grp
      | None \<Rightarrow> None)"
  by (induction order arbitrary: m) (auto split: option.splits)

lemma cleanup_tick_lookup:
  "correlations (cleanup_tick order now c) k =
    (case correlations c k of
       Some grp \<Rightarrow>
         if k \<in> set order \<and> Sub now (UpdatedAt grp) > ttl c then None else Some grp
     | None \<Rightarrow> None)"
  by (simp add: cleanup_tick_def sweep_fold)

lemma set_map_filter_eq: "set (List.map_filter f xs) = {y. \<exists>x \<in> set xs. f x = Some y}"
  by (induction xs) (auto split: option.splits)

lemma set_GetActiveGroups:
  "range_order order c \<Longrightarrow> set (GetActiveGroups order c) = ran (correlations c)"
  by (auto simp: GetActiveGroups_def range_order_def set_map_filter_eq ran_def dom_def)

text \<open>Every reachable table is well-formed.\<close>

lemma matchesGroup_update [simp]:
  "matchesGroup keys (grp\<lparr>Events := es, UpdatedAt := t\<rparr>) = matchesGroup keys grp"
  by (simp add: matchesGroup_def)






text \<open>The first step of the scenario, evaluated.\<close>

lemma Correlate_event_1:
  "Correlate example_runtime [] (\<lambda>i. 0) NewCorrelator event_1 =
    (''ip:10.0.0.5T0'', table_1 [event_1] 0)"
  by (simp add: Correlate_def Let_def keys_event_1 generateCorrelationID_def
      example_runtime_def NewCorrelator_def table_1_def group_1_def)

lemma range_order_NewCorrelator: "range_order [] NewCorrelator"
  by (simp add: range_order_def NewCorrelator_def)

lemma range_order_table_1: "range_order [''ip:10.0.0.5T0''] (table_1 es t)"
  by (simp add: range_order_def table_1_def)

lemma reachable_table_1: "reachable example_runtime (table_1 [event_1] 0) [event_1]"
  using reachable.correlate [OF reachable.new range_order_NewCorrelator,
      of example_runtime "\<lambda>i. 0" event_1]
  by (simp add: Correlate_event_1)

text \<open>The second step: \<open>event_2\<close> shares the address with \<open>event_1\<close> and joins its group.\<close>

lemma Correlate_event_2:
  "Correlate example_runtime [''ip:10.0.0.5T0''] (\<lambda>i. 1) (table_1 [event_1] 0) event_2 =
    (''ip:10.0.0.5T0'', table_1 [event_1, event_2] 1)"
  by (simp add: Correlate_def Let_def keys_event_2 matchesGroup_def table_1_def group_1_def)


text \<open>
  The two ways a call of \<open>Correlate\<close> can go: the event joins the one group that
  matches it, or it founds a group because none matches.
\<close>

lemma Correlate_joins:
  assumes order: "range_order order c"
    and at: "correlations c k0 = Some g0"
    and m: "matchesGroup (extractCorrelationKeys e) g0"
    and others: "\<And>k grp. k \<noteq> k0 \<Longrightarrow> correlations c k = Some grp
                   \<Longrightarrow> \<not> matchesGroup (extractCorrelationKeys e) grp"
  shows "Correlate rt order now c e =
    (ID g0, c\<lparr>correlations := (correlations c)
                (k0 \<mapsto> g0\<lparr>Events := Events g0 @ [e], UpdatedAt := now 0\<rparr>)\<rparr>)"
proof -
  from order at have "k0 \<in> set order"
    by (auto simp: range_order_def)
  with at m have "range_match (extractCorrelationKeys e) (correlations c) order \<noteq> None"
    by (auto simp: range_match_None_iff)
  then obtain k grp
    where found: "range_match (extractCorrelationKeys e) (correlations c) order = Some (k, grp)"
    by auto
  then have kg: "correlations c k = Some grp"
    and "matchesGroup (extractCorrelationKeys e) grp"
    by (auto dest: range_match_SomeD)
  with others have "k = k0"
    by blast
  with kg at have "grp = g0"
    by simp
  note \<open>k = k0\<close> this
  with found show ?thesis
    by (simp add: Correlate_match)
qed

lemma Correlate_founds:
  assumes order: "range_order order c" and fresh: "no_match c e"
  shows "Correlate rt order now c e =
        (generateCorrelationID rt (extractCorrelationKeys e) (now 0),
         c\<lparr>correlations := (correlations c)
             (generateCorrelationID rt (extractCorrelationKeys e) (now 0) \<mapsto>
                \<lparr>ID = generateCorrelationID rt (extractCorrelationKeys e) (now 0),
                 Events = [e], CreatedAt = now 1, UpdatedAt = now 2,
                 Keys = extractCorrelationKeys e\<rparr>)\<rparr>)"
proof -
  from fresh have "range_match (extractCorrelationKeys e) (correlations c) order = None"
    by (auto simp: range_match_None_iff no_match_def ran_def)
  then show ?thesis
    by (rule Correlate_new)
qed

text \<open>More steps of the scenario, evaluated.\<close>

lemma shares_12: "shares_key event_1 event_2"
  by (simp add: shares_key_def keys_event_1 keys_event_2)

lemma shares_21: "shares_key event_2 event_1"
  by (simp add: shares_key_def keys_event_1 keys_event_2)

lemma shares_23: "shares_key event_2 event_3"
  by (simp add: shares_key_def keys_event_2 keys_event_3)

lemma no_match_NewCorrelator: "no_match NewCorrelator event"
  by (simp add: no_match_def NewCorrelator_def)

lemma Correlate_event_3:
  "Correlate example_runtime [''ip:10.0.0.5T0''] (\<lambda>i. 2) (table_1 [event_1, event_2] 1) event_3
    = (''user:aliceT2'',
       \<lparr>correlations =
          [''ip:10.0.0.5T0'' \<mapsto> group_1 [event_1, event_2] 1,
           ''user:aliceT2'' \<mapsto>
             \<lparr>ID = ''user:aliceT2'', Events = [event_3], CreatedAt = 2, UpdatedAt = 2,
              Keys = [''user:alice'']\<rparr>],
        ttl = Hour\<rparr>)"
  by (simp add: Correlate_def Let_def keys_event_3 matchesGroup_def table_1_def group_1_def
      generateCorrelationID_def example_runtime_def)

lemma Correlate_event_2_first:
  "Correlate example_runtime [] (\<lambda>i. 0) NewCorrelator event_2 =
    (''ip:10.0.0.5user:'', table_2 [event_2] 0)"
  by (simp add: Correlate_def Let_def keys_event_2 generateCorrelationID_def
      example_runtime_def NewCorrelator_def table_2_def group_2_def)

lemma range_order_table_2: "range_order [''ip:10.0.0.5user:''] (table_2 es t)"
  by (simp add: range_order_def table_2_def)

lemma Correlate_event_1_second:
  "Correlate example_runtime [''ip:10.0.0.5user:''] (\<lambda>i. 1) (table_2 [event_2] 0) event_1 =
    (''ip:10.0.0.5user:'', table_2 [event_2, event_1] 1)"
  by (simp add: Correlate_def Let_def keys_event_1 matchesGroup_def table_2_def group_2_def)

lemma keys_event_4: "extractCorrelationKeys event_4 = []"
  by (simp add: extractCorrelationKeys_def event_4_def example_event_def)

lemma keys_event_5: "extractCorrelationKeys event_5 = []"
  by (simp add: extractCorrelationKeys_def event_5_def example_event_def)

section \<open>Key extraction\<close>



section \<open>The keys of a group\<close>





section \<open>Eviction\<close>

text \<open>
  C8.  One tick of the cleanup, run at clock reading \<open>now\<close> on a reachable table, removes
  exactly the groups whose last update is more than one hour old: such a group is absent
  from the table and from \<open>GetActiveGroups\<close> afterwards, every other group is still in
  the table, unchanged, and is listed by \<open>GetActiveGroups\<close>; the tick adds no group.
\<close>

theorem cleanup_tick_evicts_exactly_the_expired:
  assumes reach: "reachable rt c es"
    and order: "range_order order c"
    and c': "c' = cleanup_tick order now c"
    and order': "range_order order' c'"
    and grp: "correlations c k = Some grp"
  shows "(if now - UpdatedAt grp > Hour
          then GetGroup c' k = None \<and> grp \<notin> set (GetActiveGroups order' c')
          else GetGroup c' k = Some grp \<and> grp \<in> set (GetActiveGroups order' c'))
         \<and> dom (correlations c') \<subseteq> dom (correlations c)"
proof -
  have ttl: "ttl c = Hour"
    using reach by (rule reachable_ttl)
  have visited: "\<And>j g. correlations c j = Some g \<Longrightarrow> j \<in> set order"
    using order by (auto simp: range_order_def)
  have lookup: "\<And>j. correlations c' j =
      (case correlations c j of
         Some g \<Rightarrow> if now - UpdatedAt g > Hour then None else Some g
       | None \<Rightarrow> None)"
    by (simp add: c' cleanup_tick_lookup ttl Sub_gt_Hour visited split: option.split)
  have active: "set (GetActiveGroups order' c') = ran (correlations c')"
    using order' by (rule set_GetActiveGroups)
  show ?thesis
  proof (cases "now - UpdatedAt grp > Hour")
    case True
    have "grp \<notin> ran (correlations c')"
    proof
      assume "grp \<in> ran (correlations c')"
      then obtain j where "correlations c' j = Some grp"
        by (auto simp: ran_def)
      with True show False
        by (auto simp: lookup split: option.splits if_splits)
    qed
    with True grp show ?thesis
      by (auto simp: GetGroup_def lookup active split: option.splits if_splits)
  next
    case False
    with grp have "correlations c' k = Some grp"
      by (simp add: lookup)
    with False show ?thesis
      by (auto simp: GetGroup_def active ran_def lookup split: option.splits if_splits)
  qed
qed

text \<open>
  An example: the group founded at reading 0 is evicted by a tick two hours later and
  kept by a tick thirty minutes later.
\<close>

lemma tick_after_two_hours:
  "cleanup_tick [''ip:10.0.0.5T0''] (2 * Hour) (table_1 [event_1] 0) =
    \<lparr>correlations = Map.empty, ttl = Hour\<rparr>"
  by (simp add: cleanup_tick_def table_1_def group_1_def Sub_gt_Hour)
    (simp add: Hour_def Minute_def Second_def)

lemma tick_after_thirty_minutes:
  "cleanup_tick [''ip:10.0.0.5T0''] (30 * Minute) (table_1 [event_1] 0) = table_1 [event_1] 0"
  by (simp add: cleanup_tick_def table_1_def group_1_def Sub_gt_Hour)
    (simp add: Hour_def Minute_def Second_def)

theorem cleanup_tick_evicts_exactly_the_expired_witness:
  "GetGroup (cleanup_tick [''ip:10.0.0.5T0''] (2 * Hour) (table_1 [event_1] 0))
      ''ip:10.0.0.5T0'' = None
   \<and> group_1 [event_1] 0
       \<notin> set (GetActiveGroups []
                (cleanup_tick [''ip:10.0.0.5T0''] (2 * Hour) (table_1 [event_1] 0)))
   \<and> GetGroup (cleanup_tick [''ip:10.0.0.5T0''] (30 * Minute) (table_1 [event_1] 0))
        ''ip:10.0.0.5T0'' = Some (group_1 [event_1] 0)"
proof -
  have old: "2 * Hour - UpdatedAt (group_1 [event_1] 0) > Hour"
    by (simp add: group_1_def Hour_def Minute_def Second_def)
  have young: "\<not> 30 * Minute - UpdatedAt (group_1 [event_1] 0) > Hour"
    by (simp add: group_1_def Hour_def Minute_def Second_def)
  have at: "correlations (table_1 [event_1] 0) ''ip:10.0.0.5T0'' = Some (group_1 [event_1] 0)"
    by (simp add: table_1_def)
  have after_old:
    "range_order [] (cleanup_tick [''ip:10.0.0.5T0''] (2 * Hour) (table_1 [event_1] 0))"
    by (simp add: tick_after_two_hours range_order_def)
  have after_young:
    "range_order [''ip:10.0.0.5T0'']
      (cleanup_tick [''ip:10.0.0.5T0''] (30 * Minute) (table_1 [event_1] 0))"
    by (simp add: tick_after_thirty_minutes range_order_table_1)
  show ?thesis
    using cleanup_tick_evicts_exactly_the_expired
            [OF reachable_table_1 range_order_table_1 refl after_old at]
          cleanup_tick_evicts_exactly_the_expired
            [OF reachable_table_1 range_order_table_1 refl after_young at]
          old young
    by simp
qed

section \<open>Membership\<close>












section \<open>Two events that share a key\<close>

text \<open>
  C3, as the code has it.  Let \<open>A\<close> and \<open>B\<close> share a correlation key, and let no group of
  the table match either of them.  Then \<open>A\<close> founds a group and \<open>B\<close>, processed next in
  any range order and at any clock readings, is given the identifier that was returned
  for \<open>A\<close>.  The hypotheses are symmetric in \<open>A\<close> and \<open>B\<close>, so the same holds when
  \<open>B\<close> is processed first.
\<close>

theorem shared_key_joins_the_founder:
  assumes order: "range_order order c"
    and fresh_A: "no_match c A"
    and fresh_B: "no_match c B"
    and shared: "shares_key A B"
    and order': "range_order order' (snd (Correlate rt order now c A))"
  shows "fst (Correlate rt order' now' (snd (Correlate rt order now c A)) B)
       = fst (Correlate rt order now c A)"
proof -
  let ?gid = "generateCorrelationID rt (extractCorrelationKeys A) (now 0)"
  let ?g = "\<lparr>ID = ?gid, Events = [A], CreatedAt = now 1, UpdatedAt = now 2,
             Keys = extractCorrelationKeys A\<rparr>"
  let ?c1 = "c\<lparr>correlations := (correlations c)(?gid \<mapsto> ?g)\<rparr>"
  have first: "Correlate rt order now c A = (?gid, ?c1)"
    using order fresh_A by (rule Correlate_founds)
  have at: "correlations ?c1 ?gid = Some ?g"
    by simp
  have m: "matchesGroup (extractCorrelationKeys B) ?g"
    using shared by (auto simp: matchesGroup_iff shares_key_def)
  have others: "\<And>k grp. k \<noteq> ?gid \<Longrightarrow> correlations ?c1 k = Some grp
      \<Longrightarrow> \<not> matchesGroup (extractCorrelationKeys B) grp"
    using fresh_B by (auto simp: no_match_def ran_def)
  from order' have "range_order order' ?c1"
    by (simp add: first)
  from Correlate_joins [OF this at m others] show ?thesis
    by (simp add: first)
qed

text \<open>The theorem from the empty table, in both orders of \<open>event_1\<close> and \<open>event_2\<close>.\<close>

theorem shared_key_joins_the_founder_witness:
  "fst (Correlate example_runtime [''ip:10.0.0.5T0''] (\<lambda>i. 1)
          (snd (Correlate example_runtime [] (\<lambda>i. 0) NewCorrelator event_1)) event_2)
     = fst (Correlate example_runtime [] (\<lambda>i. 0) NewCorrelator event_1)
   \<and> fst (Correlate example_runtime [''ip:10.0.0.5user:''] (\<lambda>i. 1)
          (snd (Correlate example_runtime [] (\<lambda>i. 0) NewCorrelator event_2)) event_1)
     = fst (Correlate example_runtime [] (\<lambda>i. 0) NewCorrelator event_2)"
proof -
  have after_1: "range_order [''ip:10.0.0.5T0'']
      (snd (Correlate example_runtime [] (\<lambda>i. 0) NewCorrelator event_1))"
    by (simp add: Correlate_event_1 range_order_table_1)
  have after_2: "range_order [''ip:10.0.0.5user:'']
      (snd (Correlate example_runtime [] (\<lambda>i. 0) NewCorrelator event_2))"
    by (simp add: Correlate_event_2_first range_order_table_2)
  from shared_key_joins_the_founder
         [OF range_order_NewCorrelator no_match_NewCorrelator no_match_NewCorrelator
             shares_12 after_1]
       shared_key_joins_the_founder
         [OF range_order_NewCorrelator no_match_NewCorrelator no_match_NewCorrelator
             shares_21 after_2]
  show ?thesis
    by blast
qed

text \<open>
  Without the hypothesis the claim fails.  \<open>event_2\<close> and \<open>event_3\<close> share the key
  \<open>user:alice\<close>.  On the table that holds the group of \<open>event_1\<close>, \<open>event_2\<close> joins
  that group (through \<open>ip:10.0.0.5\<close>), whose keys stay \<open>ip:10.0.0.5\<close>; \<open>event_3\<close>,
  processed next, matches no group and is given a new identifier.
\<close>

theorem shared_key_counterexample:
  "reachable example_runtime (table_1 [event_1] 0) [event_1]
   \<and> shares_key event_2 event_3
   \<and> Correlate example_runtime [''ip:10.0.0.5T0''] (\<lambda>i. 1) (table_1 [event_1] 0) event_2
       = (''ip:10.0.0.5T0'', table_1 [event_1, event_2] 1)
   \<and> fst (Correlate example_runtime [''ip:10.0.0.5T0''] (\<lambda>i. 2)
            (table_1 [event_1, event_2] 1) event_3)
       = ''user:aliceT2''"
  using reachable_table_1 shares_23 Correlate_event_2
  by (simp add: Correlate_event_3)

section \<open>Three events\<close>

text \<open>
  C2, as the code has it.  Let \<open>A\<close> share a key with \<open>B\<close> and \<open>B\<close> share a key with \<open>C\<close>,
  and let no group of the table match any of the three.  When \<open>B\<close> is processed first,
  it founds a group, and \<open>A\<close> and then \<open>C\<close> are given its identifier, in any range
  orders and at any clock readings.  The hypotheses are symmetric in \<open>A\<close> and \<open>C\<close>, so
  the same holds for the order \<open>B\<close>, \<open>C\<close>, \<open>A\<close>.
\<close>

theorem three_events_join_the_first:
  assumes order: "range_order order c"
    and fresh_A: "no_match c A"
    and fresh_B: "no_match c B"
    and fresh_C: "no_match c C"
    and shared_AB: "shares_key A B"
    and shared_BC: "shares_key B C"
    and c1: "c1 = snd (Correlate rt order now c B)"
    and order1: "range_order order1 c1"
    and c2: "c2 = snd (Correlate rt order1 now1 c1 A)"
    and order2: "range_order order2 c2"
  shows "fst (Correlate rt order1 now1 c1 A) = fst (Correlate rt order now c B)
       \<and> fst (Correlate rt order2 now2 c2 C) = fst (Correlate rt order now c B)"
proof -
  let ?gid = "generateCorrelationID rt (extractCorrelationKeys B) (now 0)"
  let ?g = "\<lparr>ID = ?gid, Events = [B], CreatedAt = now 1, UpdatedAt = now 2,
             Keys = extractCorrelationKeys B\<rparr>"
  let ?g' = "?g\<lparr>Events := Events ?g @ [A], UpdatedAt := now1 0\<rparr>"
  have first: "Correlate rt order now c B = (?gid, c\<lparr>correlations := (correlations c)(?gid \<mapsto> ?g)\<rparr>)"
    using order fresh_B by (rule Correlate_founds)
  then have c1_eq: "c1 = c\<lparr>correlations := (correlations c)(?gid \<mapsto> ?g)\<rparr>"
    by (simp add: c1)
  have at1: "correlations c1 ?gid = Some ?g"
    by (simp add: c1_eq)
  have m1: "matchesGroup (extractCorrelationKeys A) ?g"
    using shared_AB by (auto simp: matchesGroup_iff shares_key_def)
  have others1: "\<And>k grp. k \<noteq> ?gid \<Longrightarrow> correlations c1 k = Some grp
      \<Longrightarrow> \<not> matchesGroup (extractCorrelationKeys A) grp"
    using fresh_A by (auto simp: c1_eq no_match_def ran_def)
  have second: "Correlate rt order1 now1 c1 A =
      (ID ?g, c1\<lparr>correlations := (correlations c1)(?gid \<mapsto> ?g')\<rparr>)"
    by (rule Correlate_joins [OF order1 at1 m1 others1])
  then have c2_eq: "c2 = c1\<lparr>correlations := (correlations c1)(?gid \<mapsto> ?g')\<rparr>"
    by (simp add: c2)
  have at2: "correlations c2 ?gid = Some ?g'"
    by (simp add: c2_eq)
  have m2: "matchesGroup (extractCorrelationKeys C) ?g'"
    using shared_BC by (auto simp: matchesGroup_iff shares_key_def)
  have others2: "\<And>k grp. k \<noteq> ?gid \<Longrightarrow> correlations c2 k = Some grp
      \<Longrightarrow> \<not> matchesGroup (extractCorrelationKeys C) grp"
    using fresh_C by (auto simp: c2_eq c1_eq no_match_def ran_def)
  have third: "Correlate rt order2 now2 c2 C =
      (ID ?g', c2\<lparr>correlations := (correlations c2)
                    (?gid \<mapsto> ?g'\<lparr>Events := Events ?g' @ [C], UpdatedAt := now2 0\<rparr>)\<rparr>)"
    by (rule Correlate_joins [OF order2 at2 m2 others2])
  show ?thesis
    by (simp add: first second third)
qed

text \<open>The theorem from the empty table, with \<open>event_2\<close> processed first.\<close>

theorem three_events_join_the_first_witness:
  "fst (Correlate example_runtime [''ip:10.0.0.5user:''] (\<lambda>i. 1) (table_2 [event_2] 0) event_1)
     = fst (Correlate example_runtime [] (\<lambda>i. 0) NewCorrelator event_2)
   \<and> fst (Correlate example_runtime [''ip:10.0.0.5user:''] (\<lambda>i. 2)
            (table_2 [event_2, event_1] 1) event_3)
     = fst (Correlate example_runtime [] (\<lambda>i. 0) NewCorrelator event_2)"
proof -
  have c1: "table_2 [event_2] 0 = snd (Correlate example_runtime [] (\<lambda>i. 0) NewCorrelator event_2)"
    by (simp add: Correlate_event_2_first)
  have c2: "table_2 [event_2, event_1] 1
      = snd (Correlate example_runtime [''ip:10.0.0.5user:''] (\<lambda>i. 1) (table_2 [event_2] 0) event_1)"
    by (simp add: Correlate_event_1_second)
  from three_events_join_the_first
         [OF range_order_NewCorrelator no_match_NewCorrelator no_match_NewCorrelator
             no_match_NewCorrelator shares_12 shares_23 c1 range_order_table_2 c2
             range_order_table_2]
  show ?thesis
    by blast
qed

text \<open>
  In the order \<open>event_1\<close>, \<open>event_2\<close>, \<open>event_3\<close> the claim fails: the first two share
  \<open>ip:10.0.0.5\<close>, the last two share \<open>user:alice\<close>, and the third call returns another
  identifier than the first two.
\<close>

theorem three_events_counterexample:
  "shares_key event_1 event_2 \<and> shares_key event_2 event_3
   \<and> Correlate example_runtime [] (\<lambda>i. 0) NewCorrelator event_1
       = (''ip:10.0.0.5T0'', table_1 [event_1] 0)
   \<and> Correlate example_runtime [''ip:10.0.0.5T0''] (\<lambda>i. 1) (table_1 [event_1] 0) event_2
       = (''ip:10.0.0.5T0'', table_1 [event_1, event_2] 1)
   \<and> fst (Correlate example_runtime [''ip:10.0.0.5T0''] (\<lambda>i. 2)
            (table_1 [event_1, event_2] 1) event_3)
       \<noteq> ''ip:10.0.0.5T0''"
  using shares_12 shares_23 Correlate_event_1 Correlate_event_2
  by (simp add: Correlate_event_3)

text \<open>
  The identifiers above are those of the example runtime, but the failure is not: in every
  runtime, at all clock readings, the loop of \<open>Correlate\<close> finds no group for
  \<open>event_3\<close> after \<open>event_1\<close> and \<open>event_2\<close>, so that \<open>event_3\<close> founds a group of its
  own.
\<close>

lemma third_event_finds_no_group:
  "range_match (extractCorrelationKeys event_3)
     (correlations
       (snd (Correlate rt [fst (Correlate rt [] now0 NewCorrelator event_1)] now1
              (snd (Correlate rt [] now0 NewCorrelator event_1)) event_2)))
     order = None"
  by (simp add: range_match_None_iff Correlate_def Let_def keys_event_1 keys_event_2
      keys_event_3 matchesGroup_def NewCorrelator_def)

section \<open>Identifiers of groups\<close>

text \<open>
  C9.  The identifier of a new group is a function of the concatenated keys and of the
  rendering of one clock reading.  Two events without correlation keys, correlated one
  after the other while the clock shows the same reading \<open>t\<close>, are given the same
  identifier, in every runtime; the group of the second replaces the group of the first in
  the table, which afterwards holds one group, with the second event as its only member.
\<close>

theorem equal_readings_equal_identifiers:
  "fst (Correlate rt [] (\<lambda>i. t) NewCorrelator event_4) = generateCorrelationID rt [] t
   \<and> fst (Correlate rt [generateCorrelationID rt [] t] (\<lambda>i. t)
            (snd (Correlate rt [] (\<lambda>i. t) NewCorrelator event_4)) event_5)
       = generateCorrelationID rt [] t
   \<and> GetActiveGroups [generateCorrelationID rt [] t]
        (snd (Correlate rt [generateCorrelationID rt [] t] (\<lambda>i. t)
               (snd (Correlate rt [] (\<lambda>i. t) NewCorrelator event_4)) event_5))
       = [\<lparr>ID = generateCorrelationID rt [] t, Events = [event_5], CreatedAt = t,
           UpdatedAt = t, Keys = []\<rparr>]"
  by (simp add: Correlate_def Let_def keys_event_4 keys_event_5 matchesGroup_def
      NewCorrelator_def GetActiveGroups_def)

text \<open>The same in the example runtime at reading 0.\<close>

theorem equal_readings_equal_identifiers_witness:
  "fst (Correlate example_runtime [] (\<lambda>i. 0) NewCorrelator event_4) = ''T0''
   \<and> fst (Correlate example_runtime [''T0''] (\<lambda>i. 0)
            (snd (Correlate example_runtime [] (\<lambda>i. 0) NewCorrelator event_4)) event_5)
       = ''T0''
   \<and> GetActiveGroups [''T0'']
        (snd (Correlate example_runtime [''T0''] (\<lambda>i. 0)
               (snd (Correlate example_runtime [] (\<lambda>i. 0) NewCorrelator event_4)) event_5))
       = [\<lparr>ID = ''T0'', Events = [event_5], CreatedAt = 0, UpdatedAt = 0, Keys = []\<rparr>]"
proof -
  have gid: "generateCorrelationID example_runtime [] 0 = ''T0''"
    by (simp add: generateCorrelationID_def example_runtime_def)
  from equal_readings_equal_identifiers [of example_runtime 0] show ?thesis
    by (simp only: gid)
qed

section \<open>Risk aggregation\<close>



section \<open>Events without a parsed analysis\<close>

text \<open>The two ways in which the analyzer ends without a parsed answer of the provider.\<close>

lemma AnalyzeRawEvent_provider_fails:
  "provider a (buildRawEventPrompt rt raw) = Inl err
    \<Longrightarrow> AnalyzeRawEvent rt a raw = Inl (''AI analysis failed: '' @ err)"
  by (simp add: AnalyzeRawEvent_def)

lemma AnalyzeRawEvent_parse_fails:
  "provider a (buildRawEventPrompt rt raw) = Inr response
    \<Longrightarrow> json_Unmarshal rt (Content response) = Inl err
    \<Longrightarrow> AnalyzeRawEvent rt a raw = Inr (fallbackAnalysis raw)"
  by (simp add: AnalyzeRawEvent_def parseRiskAnalysis_def)

text \<open>
  When the normalization succeeds and the output channel has room, \<open>processEvent\<close> sends
  one event, whose risk is that of the analysis it carries.
\<close>

lemma processEvent_emits:
  assumes "Normalize (normalizer p) raw = Inr normalized"
    and "length (outputChan p) < outputChan_capacity"
  shows "\<exists>processed.
      sent (processEvent rt order now p raw) = outputChan p @ [processed]
      \<and> out_AIAnalysis processed =
           (case AnalyzeRawEvent rt (aiAnalyzer p) raw of
              Inl err \<Rightarrow> None | Inr analysis \<Rightarrow> Some analysis)
      \<and> (out_RiskScore processed, out_RiskLevel processed) =
           calculateRisk (out_AIAnalysis processed) normalized"
  using assms
  by (simp add: processEvent_def Let_def sent_def split: prod.split option.split sum.split)

text \<open>
  C5, as the code has it.  Let the normalization succeed and the output channel have
  room.  When the call of the provider fails, the event that is sent carries no analysis,
  the score 0 and the level \<open>unknown\<close>.  When the provider answers and the answer cannot
  be parsed, the analyzer substitutes \<open>fallbackAnalysis\<close>, and the event that is sent
  carries this analysis, the score 0.5 and the level \<open>medium\<close>.
\<close>

theorem risk_without_a_parsed_analysis:
  assumes norm: "Normalize (normalizer p) raw = Inr normalized"
    and room: "length (outputChan p) < outputChan_capacity"
  shows "(provider (aiAnalyzer p) (buildRawEventPrompt rt raw) = Inl err
          \<longrightarrow> (\<exists>processed.
                sent (processEvent rt order now p raw) = outputChan p @ [processed]
                \<and> out_AIAnalysis processed = None
                \<and> out_RiskScore processed = 0
                \<and> out_RiskLevel processed = ''unknown''))
       \<and> (provider (aiAnalyzer p) (buildRawEventPrompt rt raw) = Inr response
            \<and> json_Unmarshal rt (Content response) = Inl err
          \<longrightarrow> (\<exists>processed.
                sent (processEvent rt order now p raw) = outputChan p @ [processed]
                \<and> out_AIAnalysis processed = Some (fallbackAnalysis raw)
                \<and> out_RiskScore processed = 0.5
                \<and> out_RiskLevel processed = ''medium''))"
proof (intro conjI impI)
  assume "provider (aiAnalyzer p) (buildRawEventPrompt rt raw) = Inl err"
  then have "AnalyzeRawEvent rt (aiAnalyzer p) raw = Inl (''AI analysis failed: '' @ err)"
    by (rule AnalyzeRawEvent_provider_fails)
  with processEvent_emits [OF norm room, of rt order now]
  show "\<exists>processed.
      sent (processEvent rt order now p raw) = outputChan p @ [processed]
      \<and> out_AIAnalysis processed = None
      \<and> out_RiskScore processed = 0
      \<and> out_RiskLevel processed = ''unknown''"
    by (auto simp: calculateRisk_def)
next
  assume "provider (aiAnalyzer p) (buildRawEventPrompt rt raw) = Inr response
      \<and> json_Unmarshal rt (Content response) = Inl err"
  then have "AnalyzeRawEvent rt (aiAnalyzer p) raw = Inr (fallbackAnalysis raw)"
    by (simp add: AnalyzeRawEvent_parse_fails)
  with processEvent_emits [OF norm room, of rt order now]
  show "\<exists>processed.
      sent (processEvent rt order now p raw) = outputChan p @ [processed]
      \<and> out_AIAnalysis processed = Some (fallbackAnalysis raw)
      \<and> out_RiskScore processed = 0.5
      \<and> out_RiskLevel processed = ''medium''"
    by (auto simp: calculateRisk_def fallbackAnalysis_def Let_def)
qed

text \<open>The theorem at the two example pipelines.\<close>

lemma Normalize_raw_1:
  "\<exists>normalized. Normalize (normalizer (example_pipeline f ''ocsf'')) raw_1 = Inr normalized"
  by (simp add: Normalize_def normalizeToOCSF_def example_pipeline_def Let_def)

lemma room_example_pipeline:
  "length (outputChan (example_pipeline f schema)) < outputChan_capacity"
  by (simp add: example_pipeline_def outputChan_capacity_def)

theorem risk_without_a_parsed_analysis_witness:
  "map out_RiskLevel
     (sent (processEvent example_runtime [] (\<lambda>i. 0)
              (example_pipeline failing_provider ''ocsf'') raw_1)) = [''unknown'']
   \<and> map out_RiskLevel
     (sent (processEvent example_runtime [] (\<lambda>i. 0)
              (example_pipeline chatty_provider ''ocsf'') raw_1)) = [''medium'']"
proof -
  obtain n1 where n1:
    "Normalize (normalizer (example_pipeline failing_provider ''ocsf'')) raw_1 = Inr n1"
    using Normalize_raw_1 by blast
  obtain n2 where n2:
    "Normalize (normalizer (example_pipeline chatty_provider ''ocsf'')) raw_1 = Inr n2"
    using Normalize_raw_1 by blast
  have fails: "provider (aiAnalyzer (example_pipeline failing_provider ''ocsf''))
      (buildRawEventPrompt example_runtime raw_1) = Inl ''API returned status 500''"
    by (simp add: example_pipeline_def failing_provider_def)
  have answers: "provider (aiAnalyzer (example_pipeline chatty_provider ''ocsf''))
      (buildRawEventPrompt example_runtime raw_1)
      = Inr \<lparr>Content = ''I cannot assess this event.'', Model = ''gpt-4'',
             resp_Usage = \<lparr>InputTokens = 0, OutputTokens = 0\<rparr>\<rparr>
    \<and> json_Unmarshal example_runtime
        (Content \<lparr>Content = ''I cannot assess this event.'', Model = ''gpt-4'',
             resp_Usage = \<lparr>InputTokens = 0, OutputTokens = 0\<rparr>\<rparr>) = Inl ''invalid character''"
    by (simp add: example_pipeline_def chatty_provider_def example_runtime_def)
  have empty: "\<And>f schema. outputChan (example_pipeline f schema) = []"
    by (simp add: example_pipeline_def)
  from risk_without_a_parsed_analysis
         [OF n1 room_example_pipeline,
            where rt = example_runtime and err = "''API returned status 500''"
              and order = "[]" and now = "\<lambda>i. 0"]
       fails
  have first: "map out_RiskLevel
     (sent (processEvent example_runtime [] (\<lambda>i. 0)
              (example_pipeline failing_provider ''ocsf'') raw_1)) = [''unknown'']"
    by (auto simp: empty)
  from risk_without_a_parsed_analysis
         [OF n2 room_example_pipeline,
            where rt = example_runtime and err = "''invalid character''"
              and order = "[]" and now = "\<lambda>i. 0"
              and response = "\<lparr>Content = ''I cannot assess this event.'', Model = ''gpt-4'',
                resp_Usage = \<lparr>InputTokens = 0, OutputTokens = 0\<rparr>\<rparr>"]
       answers
  have second: "map out_RiskLevel
     (sent (processEvent example_runtime [] (\<lambda>i. 0)
              (example_pipeline chatty_provider ''ocsf'') raw_1)) = [''medium'']"
    by (auto simp: empty)
  from first second show ?thesis
    by blast
qed

text \<open>
  The level \<open>unknown\<close> is not what an unparsed answer leads to.  The provider answers
  with a sentence that is not JSON, the decoder rejects it, and the event that is sent
  has the level \<open>medium\<close> and the score 0.5.
\<close>

theorem fabricated_default_counterexample:
  "chatty_provider (buildRawEventPrompt example_runtime raw_1)
     = Inr \<lparr>Content = ''I cannot assess this event.'', Model = ''gpt-4'',
            resp_Usage = \<lparr>InputTokens = 0, OutputTokens = 0\<rparr>\<rparr>
   \<and> json_Unmarshal example_runtime ''I cannot assess this event.'' = Inl ''invalid character''
   \<and> map out_RiskLevel
        (sent (processEvent example_runtime [] (\<lambda>i. 0)
                 (example_pipeline chatty_provider ''ocsf'') raw_1)) = [''medium'']
   \<and> map out_RiskScore
        (sent (processEvent example_runtime [] (\<lambda>i. 0)
                 (example_pipeline chatty_provider ''ocsf'') raw_1)) = [0.5]"
  by (simp add: chatty_provider_def example_runtime_def processEvent_def sent_def Let_def
      example_pipeline_def AnalyzeRawEvent_def parseRiskAnalysis_def Normalize_def
      normalizeToOCSF_def outputChan_capacity_def calculateRisk_def fallbackAnalysis_def
      split: prod.split)

section \<open>Failure of the normalization\<close>

text \<open>The normalizer fails exactly when it is configured with a schema other than OCSF and ECS.\<close>

lemma Normalize_fails_iff:
  "(\<exists>err. Normalize n raw = Inl err) \<longleftrightarrow> DefaultSchema n \<noteq> ''ocsf'' \<and> DefaultSchema n \<noteq> ''ecs''"
  by (auto simp: Normalize_def normalizeToOCSF_def normalizeToECS_def Let_def)

text \<open>
  C10.  When the normalization of a raw event returns an error, \<open>processEvent\<close> returns
  with the pipeline as it was: nothing was sent on the output channel and the correlator
  with its table is unchanged (\<open>Correlate\<close> was not called).  The call is one pass
  without a loop, so nothing is tried again.
\<close>

theorem normalization_failure_drops_the_event:
  assumes "Normalize (normalizer p) raw = Inl err"
  shows "processEvent rt order now p raw = Returned p"
  using assms by (simp add: processEvent_def Let_def)

text \<open>A pipeline configured with the schema \<open>cef\<close>.\<close>

theorem normalization_failure_drops_the_event_witness:
  "processEvent example_runtime [] (\<lambda>i. 0) (example_pipeline chatty_provider ''cef'') raw_1
     = Returned (example_pipeline chatty_provider ''cef'')"
proof -
  have "Normalize (normalizer (example_pipeline chatty_provider ''cef'')) raw_1
      = Inl ''unsupported schema: cef''"
    by (simp add: Normalize_def example_pipeline_def)
  then show ?thesis
    by (rule normalization_failure_drops_the_event)
qed

end
